theory Spec2Isabelle
  imports Complex_Main "HOL-Library.Char_ord" "HOL-Library.List_Lexorder" "HOL-Library.Sublist"
    "HOL-Library.Multiset" "HOL-Library.Log_Nat"
begin

section \<open>Values crossing the JavaScript boundary\<close>

text \<open>
  A JavaScript number is modelled by \<open>jsnum\<close>: \<open>NaN\<close>, or a finite double carried as
  the rational it is exactly equal to. Infinities are left out.
\<close>

datatype jsnum = NaN | Num rat

text \<open>
  Arithmetic on JavaScript numbers is IEEE 754 binary64 arithmetic: the exact result is
  rounded to the nearest double, ties to the one with an even significand. A double is
  \<open>m * 2^e\<close> with \<open>|m| \<le> 2^53\<close> and \<open>e \<ge> -1074\<close>, below \<open>2^1024\<close> in magnitude.
\<close>

definition two_to :: "int \<Rightarrow> rat" where
  "two_to k = (if 0 \<le> k then 2 ^ nat k else 1 / 2 ^ nat (- k))"

text \<open>
  For \<open>x > 0\<close>, the \<open>k\<close> with \<open>2^k \<le> x < 2^(k+1)\<close>: the difference of the bit
  lengths of numerator and denominator, or one less.
\<close>

definition floor_log2 :: "rat \<Rightarrow> int" where
  "floor_log2 x =
     (let k0 = bitlen (fst (quotient_of x)) - bitlen (snd (quotient_of x))
      in if two_to k0 \<le> x then k0 else k0 - 1)"

definition round_half_even :: "rat \<Rightarrow> int" where
  "round_half_even x =
     (let f = \<lfloor>x\<rfloor>; r = x - of_int f
      in if r < 1 / 2 then f else if 1 / 2 < r then f + 1 else if even f then f else f + 1)"

text \<open>
  The double nearest to a rational; \<open>None\<close> when the result overflows to an infinity,
  that is, when the rounded magnitude reaches \<open>2^1024\<close>.
\<close>

definition double_round :: "rat \<Rightarrow> rat option" where
  "double_round x =
     (if x = 0 then Some 0
      else
        let a = \<bar>x\<bar>;
            e = max (floor_log2 a - 52) (- 1074);
            m = round_half_even (a / two_to e);
            y = of_int m * two_to e
        in if 1024 \<le> floor_log2 y then None else Some (sgn x * y))"

text \<open>
  \<open>FormData.get\<close> yields \<open>null\<close>, a string, or a \<open>File\<close>. The same three shapes
  stand for the untyped fields of the credentials object (absent, a string, anything else).
\<close>

datatype entry = Absent | Text string | File

text \<open>
  What an exported function does when it ends: it returns a value, throws an \<open>Error\<close>
  with a message, or leaves through the framework's \<open>redirect\<close>.
\<close>

datatype 'a outcome = Returned 'a | Threw string | Redirected string

section \<open>Tables\<close>

text \<open>
  Modelled from the spec: the table declarations (the schema) are not among the sources.
  The rows carry the columns the statements in \<open>data.ts\<close>, \<open>actions.ts\<close> and
  \<open>auth.ts\<close> name, typed as in the data model: \<open>amount\<close> holds integer cents, and a
  \<open>DATE\<close> is represented by its ISO text \<open>YYYY-MM-DD\<close> (on which lexicographic order
  is chronological order).
\<close>

record invoice =
  invoice_id :: string
  invoice_customer_id :: string
  invoice_amount :: int
  invoice_status :: string
  invoice_date :: string

record customer =
  customer_id :: string
  customer_name :: string
  customer_email :: string
  customer_image_url :: string

record user =
  user_id :: string
  user_email :: string
  user_password :: string

text \<open>
  \<open>connected\<close> says whether the connection answers. When it does not, every statement
  raises, which is the failure the \<open>try\<close>/\<open>catch\<close> blocks of the code handle.
\<close>

record database =
  invoices :: "invoice list"
  customers :: "customer list"
  users :: "user list"
  connected :: bool

text \<open>
  What a server action can change: the database, the process-wide page cache (the paths
  handed to \<open>revalidatePath\<close>, in order), and a trace of the statements the action has
  sent to the database, whether or not they succeeded.
\<close>

datatype statement = INSERT | UPDATE | DELETE

record world =
  db :: database
  revalidated :: "string list"
  issued :: "statement list"

section \<open>Statements of the mutation layer\<close>

text \<open>
  Modelled from the spec: the constraints of the invoices table, the schema not being among
  the sources. The amount column holds integer cents, and the database enforces that
  \<open>customer_id\<close> references an existing customer. The amount parameter of \<open>INSERT\<close>
  and \<open>UPDATE\<close> is the JavaScript number the code passes (\<open>None\<close> for an infinity); an
  integer column takes a whole number and rejects any other. A statement that violates a
  constraint fails like any other failing statement.
\<close>

definition whole :: "rat \<Rightarrow> int option" where
  "whole x = (if x = of_int \<lfloor>x\<rfloor> then Some \<lfloor>x\<rfloor> else None)"

definition integer_parameter :: "rat option \<Rightarrow> int option" where
  "integer_parameter p = (case p of None \<Rightarrow> None | Some x \<Rightarrow> whole x)"

definition customer_exists :: "string \<Rightarrow> database \<Rightarrow> bool" where
  "customer_exists customerId d \<longleftrightarrow> customerId \<in> set (map customer_id (customers d))"

text \<open>
  \<open>INSERT INTO invoices (customer_id, amount, status, date) VALUES ($1, $2, $3, $4)\<close>.
  The id column is filled by the table's default; \<open>new_id\<close> is the value it assigns.
\<close>

definition insert_invoice ::
  "string \<Rightarrow> string \<Rightarrow> rat option \<Rightarrow> string \<Rightarrow> string \<Rightarrow> database \<Rightarrow> database option" where
  "insert_invoice new_id customerId amountInCents status date d =
     (if \<not> connected d then None
      else if \<not> customer_exists customerId d then None
      else case integer_parameter amountInCents of
        None \<Rightarrow> None
      | Some cents \<Rightarrow>
          Some (d\<lparr>invoices := invoices d @
            [\<lparr>invoice_id = new_id, invoice_customer_id = customerId, invoice_amount = cents,
              invoice_status = status, invoice_date = date\<rparr>]\<rparr>))"

text \<open>
  \<open>UPDATE invoices SET customer_id = .., amount = .., status = .. WHERE id = ..\<close>.
  The foreign key is checked on the rows the statement changes, so only when a row has the
  given id.
\<close>

definition update_invoice ::
  "string \<Rightarrow> string \<Rightarrow> rat option \<Rightarrow> string \<Rightarrow> database \<Rightarrow> database option" where
  "update_invoice id' customerId amountInCents status d =
     (if \<not> connected d then None
      else if id' \<in> set (map invoice_id (invoices d)) \<and> \<not> customer_exists customerId d
        then None
      else case integer_parameter amountInCents of
        None \<Rightarrow> None
      | Some cents \<Rightarrow>
          Some (d\<lparr>invoices :=
            map (\<lambda>i. if invoice_id i = id'
                       then i\<lparr>invoice_customer_id := customerId, invoice_amount := cents,
                              invoice_status := status\<rparr>
                       else i)
              (invoices d)\<rparr>))"

text \<open>\<open>DELETE FROM invoices WHERE id = ..\<close>\<close>

definition delete_invoice :: "string \<Rightarrow> database \<Rightarrow> database option" where
  "delete_invoice id' d =
     (if \<not> connected d then None
      else Some (d\<lparr>invoices := filter (\<lambda>i. invoice_id i \<noteq> id') (invoices d)\<rparr>))"

section \<open>Form validation (\<open>FormSchema\<close>, \<open>CreateInvoice\<close>, \<open>UpdateInvoice\<close>)\<close>

text \<open>
  A message of a validation issue: the text the schema gives, or the validation
  library's own default text (which is not part of this repository).
\<close>

datatype message = Literal string | Library_default

record form_data =
  form_customerId :: entry
  form_amount :: entry
  form_status :: entry

record invoice_fields =
  field_customerId :: string
  field_amount :: rat
  field_status :: string

text \<open>
  \<open>z.coerce.number()\<close> applies \<open>Number\<close> to the entry: \<open>Number(null)\<close> is 0, a
  \<open>File\<close> gives \<open>NaN\<close>, and a string is read by JavaScript's numeric-string grammar,
  which is a parameter (\<open>str_to_num\<close>) here.
\<close>

definition coerce_number :: "(string \<Rightarrow> jsnum) \<Rightarrow> entry \<Rightarrow> jsnum" where
  "coerce_number str_to_num e =
     (case e of Absent \<Rightarrow> Num 0 | Text s \<Rightarrow> str_to_num s | File \<Rightarrow> NaN)"

definition check_customerId :: "entry \<Rightarrow> message list + string" where
  "check_customerId e =
     (case e of Text s \<Rightarrow> Inr s | _ \<Rightarrow> Inl [Literal ''Please select a customer.''])"

definition check_amount :: "jsnum \<Rightarrow> message list + rat" where
  "check_amount n =
     (case n of
        NaN \<Rightarrow> Inl [Library_default]
      | Num a \<Rightarrow>
          if a > 0 then Inr a else Inl [Literal ''Please enter an amount greater than $0.''])"

definition check_status :: "entry \<Rightarrow> message list + string" where
  "check_status e =
     (case e of
        Text s \<Rightarrow> if s = ''pending'' \<or> s = ''paid'' then Inr s else Inl [Library_default]
      | _ \<Rightarrow> Inl [Literal ''Please select an invoice status.''])"

text \<open>The entry of \<open>fieldErrors\<close> for one field: present only when the field has issues.\<close>

definition field_error :: "string \<Rightarrow> message list + 'a \<Rightarrow> (string \<times> message list) list" where
  "field_error key r = (case r of Inl msgs \<Rightarrow> [(key, msgs)] | Inr _ \<Rightarrow> [])"

definition safeParse ::
  "(string \<Rightarrow> jsnum) \<Rightarrow> form_data \<Rightarrow> (string \<times> message list) list + invoice_fields" where
  "safeParse str_to_num f =
     (let c = check_customerId (form_customerId f);
          a = check_amount (coerce_number str_to_num (form_amount f));
          s = check_status (form_status f)
      in case (c, a, s) of
           (Inr customerId, Inr amount, Inr status) \<Rightarrow>
             Inr \<lparr>field_customerId = customerId, field_amount = amount, field_status = status\<rparr>
         | _ \<Rightarrow>
             Inl (field_error ''customerId'' c @ field_error ''amount'' a @
                  field_error ''status'' s))"

section \<open>Server actions (\<open>actions.ts\<close>)\<close>

record state =
  errors :: "(string \<times> message list) list option"
  message :: "string option"

text \<open>
  \<open>const amountInCents = amount * 100\<close>: the product of two doubles, so the exact
  product rounded to a double (\<open>None\<close> when it overflows to \<open>Infinity\<close>).
\<close>

definition amountInCents :: "rat \<Rightarrow> rat option" where
  "amountInCents amount = double_round (amount * 100)"

text \<open>\<open>new Date().toISOString().split('T')[0]\<close>, for the timestamp text \<open>now\<close>.\<close>

definition date_only :: "string \<Rightarrow> string" where
  "date_only now = takeWhile (\<lambda>c. c \<noteq> CHR ''T'') now"

text \<open>
  The runtime's inputs to an action: the numeric-string reader, the text of
  \<open>new Date().toISOString()\<close>, and the id the table's default assigns to a new row.
\<close>

record runtime =
  str_to_num :: "string \<Rightarrow> jsnum"
  now_iso :: string
  new_id :: string

definition createInvoice :: "runtime \<Rightarrow> form_data \<Rightarrow> world \<Rightarrow> state outcome \<times> world" where
  "createInvoice rt formData w =
     (case safeParse (str_to_num rt) formData of
        Inl fieldErrors \<Rightarrow>
          (Returned \<lparr>errors = Some fieldErrors,
                     message = Some ''Missing Fields. Failed to Create Invoice.''\<rparr>, w)
      | Inr v \<Rightarrow>
          (case insert_invoice (new_id rt) (field_customerId v)
                  (amountInCents (field_amount v)) (field_status v) (date_only (now_iso rt))
                  (db w) of
             None \<Rightarrow>
               (Returned \<lparr>errors = None,
                          message = Some ''Database Error: Failed to Create Invoice.''\<rparr>,
                w\<lparr>issued := issued w @ [INSERT]\<rparr>)
           | Some d' \<Rightarrow>
               (Redirected ''/dashboard/invoices'',
                w\<lparr>db := d', revalidated := revalidated w @ [''/dashboard/invoices''],
                  issued := issued w @ [INSERT]\<rparr>)))"

definition updateInvoice ::
  "runtime \<Rightarrow> string \<Rightarrow> form_data \<Rightarrow> world \<Rightarrow> state outcome \<times> world" where
  "updateInvoice rt id' formData w =
     (case safeParse (str_to_num rt) formData of
        Inl fieldErrors \<Rightarrow>
          (Returned \<lparr>errors = Some fieldErrors,
                     message = Some ''Missing Fields. Failed to Update Invoice.''\<rparr>, w)
      | Inr v \<Rightarrow>
          (case update_invoice id' (field_customerId v)
                  (amountInCents (field_amount v)) (field_status v) (db w) of
             None \<Rightarrow>
               (Returned \<lparr>errors = None,
                          message = Some ''Database Error: Failed to Update Invoice.''\<rparr>,
                w\<lparr>issued := issued w @ [UPDATE]\<rparr>)
           | Some d' \<Rightarrow>
               (Redirected ''/dashboard/invoices'',
                w\<lparr>db := d', revalidated := revalidated w @ [''/dashboard/invoices''],
                  issued := issued w @ [UPDATE]\<rparr>)))"

definition deleteInvoice :: "string \<Rightarrow> world \<Rightarrow> state outcome \<times> world" where
  "deleteInvoice id' w =
     (case delete_invoice id' (db w) of
        Some d' \<Rightarrow>
          (Returned \<lparr>errors = None, message = Some ''Deleted Invoice''\<rparr>,
           w\<lparr>db := d', revalidated := revalidated w @ [''/dashboard/invoices''],
             issued := issued w @ [DELETE]\<rparr>)
      | None \<Rightarrow>
          (Returned \<lparr>errors = None,
                     message = Some ''Database Error: Failed to Delete Invoice.''\<rparr>,
           w\<lparr>issued := issued w @ [DELETE]\<rparr>))"

text \<open>
  \<open>authenticate\<close> awaits \<open>signIn\<close>, which belongs to the session framework: its result
  is the parameter. It resolves, or rejects with an \<open>AuthError\<close> carrying a type, or with
  any other thrown value (the framework's redirect signal among them).
\<close>

datatype 'e thrown = AuthError string | Other_error 'e

datatype 'e signin = Resolved | Rejected "'e thrown"

datatype 'e authenticated = Auth_returned "string option" | Auth_rethrown "'e thrown"

definition authenticate :: "'e signin \<Rightarrow> 'e authenticated" where
  "authenticate r =
     (case r of
        Resolved \<Rightarrow> Auth_returned None
      | Rejected (AuthError ty) \<Rightarrow>
          if ty = ''CredentialsSignin'' then Auth_returned (Some ''Invalid credentials.'')
          else Auth_returned (Some ''Something went wrong.'')
      | Rejected (Other_error e) \<Rightarrow> Auth_rethrown (Other_error e))"

section \<open>Pattern matching of the query layer (\<open>ILIKE\<close>)\<close>

text \<open>
  \<open>LIKE\<close>: in the pattern, \<open>%\<close> stands for any run of characters, \<open>_\<close> for any one
  character, and a backslash makes the next pattern character stand for itself; every other
  character stands for itself. A pattern that ends in a lone backslash matches nothing here
  (the database raises on it); no pattern built below ends that way, since each ends in
  \<open>%\<close>. The first argument is the pattern.
\<close>

fun like :: "string \<Rightarrow> string \<Rightarrow> bool" where
  "like [] s = (s = [])"
| "like (p # ps) s =
     (if p = CHR ''%'' then
        (like ps s \<or> (case s of [] \<Rightarrow> False | _ # t \<Rightarrow> like (p # ps) t))
      else if p = CHR ''_'' then
        (case s of [] \<Rightarrow> False | _ # t \<Rightarrow> like ps t)
      else if p = CHR 0x5C then
        (case ps of
           [] \<Rightarrow> False
         | q # qs \<Rightarrow> (case s of [] \<Rightarrow> False | c # t \<Rightarrow> c = q \<and> like qs t))
      else
        (case s of [] \<Rightarrow> False | c # t \<Rightarrow> c = p \<and> like ps t))"

text \<open>Case folding of the ASCII letters, which is how \<open>ILIKE\<close> ignores case.\<close>

definition lower :: "char \<Rightarrow> char" where
  "lower c =
     (if 65 \<le> (of_char c :: nat) \<and> (of_char c :: nat) \<le> 90
      then char_of ((of_char c :: nat) + 32) else c)"

definition ilike :: "string \<Rightarrow> string \<Rightarrow> bool" where
  "ilike pat s = like (map lower pat) (map lower s)"

text \<open>\<open>CAST(amount AS TEXT)\<close> of an integer: its decimal digits, with a sign when negative.\<close>

function digits :: "nat \<Rightarrow> string" where
  "digits n = (if n < 10 then [char_of (48 + n)] else digits (n div 10) @ [char_of (48 + n mod 10)])"
  by pat_completeness auto
termination
  by (relation "measure id") auto

definition int_text :: "int \<Rightarrow> string" where
  "int_text i = (if i < 0 then CHR ''-'' # digits (nat (- i)) else digits (nat i))"

section \<open>Query layer (\<open>data.ts\<close>)\<close>

definition ITEMS_PER_PAGE :: int where
  "ITEMS_PER_PAGE = 6"

text \<open>\<open>FROM invoices JOIN customers ON invoices.customer_id = customers.id\<close>\<close>

definition invoices_join_customers :: "database \<Rightarrow> (invoice \<times> customer) list" where
  "invoices_join_customers d =
     [(i, c). i \<leftarrow> invoices d, c \<leftarrow> customers d, invoice_customer_id i = customer_id c]"

text \<open>The \<open>WHERE\<close> clause shared by \<open>fetchFilteredInvoices\<close> and \<open>fetchInvoicesPages\<close>.\<close>

definition search_pattern :: "string \<Rightarrow> string" where
  "search_pattern query = ''%'' @ query @ ''%''"

definition matches_query :: "string \<Rightarrow> invoice \<times> customer \<Rightarrow> bool" where
  "matches_query query r =
     (case r of (i, c) \<Rightarrow>
        ilike (search_pattern query) (customer_name c) \<or>
        ilike (search_pattern query) (customer_email c) \<or>
        ilike (search_pattern query) (int_text (invoice_amount i)) \<or>
        ilike (search_pattern query) (invoice_date i) \<or>
        ilike (search_pattern query) (invoice_status i))"

text \<open>
  \<open>ORDER BY invoices.date DESC\<close>. SQL leaves the order of rows with equal dates open;
  the model keeps them in table order.
\<close>

fun insert_desc :: "invoice \<times> customer \<Rightarrow> (invoice \<times> customer) list \<Rightarrow> (invoice \<times> customer) list" where
  "insert_desc r [] = [r]"
| "insert_desc r (x # xs) =
     (if invoice_date (fst x) \<le> invoice_date (fst r) then r # x # xs
      else x # insert_desc r xs)"

definition order_by_date_desc :: "(invoice \<times> customer) list \<Rightarrow> (invoice \<times> customer) list" where
  "order_by_date_desc rows = foldr insert_desc rows []"

record invoices_table =
  table_id :: string
  table_amount :: int
  table_date :: string
  table_status :: string
  table_name :: string
  table_email :: string
  table_image_url :: string

definition select_invoices_table :: "invoice \<times> customer \<Rightarrow> invoices_table" where
  "select_invoices_table r =
     (case r of (i, c) \<Rightarrow>
        \<lparr>table_id = invoice_id i, table_amount = invoice_amount i, table_date = invoice_date i,
         table_status = invoice_status i, table_name = customer_name c,
         table_email = customer_email c, table_image_url = customer_image_url c\<rparr>)"

text \<open>
  \<open>select_ordered\<close> is the statement up to \<open>ORDER BY\<close>. Then
  \<open>LIMIT 6 OFFSET offset\<close> with \<open>offset = (currentPage - 1) * ITEMS_PER_PAGE\<close>. The
  database (PostgreSQL) rejects a negative \<open>OFFSET\<close>; the \<open>catch\<close> block turns every
  failure of the statement into the thrown \<open>Error\<close>. The page number is an integer here.
\<close>

definition select_ordered :: "string \<Rightarrow> database \<Rightarrow> (invoice \<times> customer) list" where
  "select_ordered query d =
     order_by_date_desc (filter (matches_query query) (invoices_join_customers d))"

definition fetchFilteredInvoices :: "string \<Rightarrow> int \<Rightarrow> database \<Rightarrow> invoices_table list outcome" where
  "fetchFilteredInvoices query currentPage d =
     (let offset = (currentPage - 1) * ITEMS_PER_PAGE in
      if \<not> connected d \<or> offset < 0 then Threw ''Failed to fetch invoices.''
      else Returned (map select_invoices_table
             (take (nat ITEMS_PER_PAGE) (drop (nat offset) (select_ordered query d)))))"

text \<open>\<open>SELECT COUNT(*) FROM invoices JOIN customers ... WHERE ...\<close>\<close>

definition select_count :: "string \<Rightarrow> database \<Rightarrow> nat" where
  "select_count query d = length (filter (matches_query query) (invoices_join_customers d))"

text \<open>\<open>Math.ceil(Number(count[0].count) / ITEMS_PER_PAGE)\<close>\<close>

definition totalPages :: "nat \<Rightarrow> int" where
  "totalPages row_count = \<lceil>(of_nat row_count :: rat) / of_int ITEMS_PER_PAGE\<rceil>"

definition fetchInvoicesPages :: "string \<Rightarrow> database \<Rightarrow> int outcome" where
  "fetchInvoicesPages query d =
     (if \<not> connected d then Threw ''Failed to fetch total number of invoices.''
      else Returned (totalPages (select_count query d)))"

record invoice_form =
  form_id :: string
  form_customer_id :: string
  form_amount_dollars :: rat
  form_invoice_status :: string

text \<open>
  \<open>data.map(...)\<close> over the rows with the given id, then \<open>invoice[0]\<close>: \<open>undefined\<close>
  (\<open>None\<close>) when there is no row. The quotient \<open>amount / 100\<close> is kept as the exact
  rational, of which the code holds the nearest double.
\<close>

definition fetchInvoiceById :: "string \<Rightarrow> database \<Rightarrow> invoice_form option outcome" where
  "fetchInvoiceById id' d =
     (if \<not> connected d then Threw ''Failed to fetch invoice.''
      else
        let data = filter (\<lambda>i. invoice_id i = id') (invoices d);
            invoice = map (\<lambda>i. \<lparr>form_id = invoice_id i, form_customer_id = invoice_customer_id i,
                                 form_amount_dollars = of_int (invoice_amount i) / 100,
                                 form_invoice_status = invoice_status i\<rparr>) data
        in Returned (case invoice of [] \<Rightarrow> None | x # _ \<Rightarrow> Some x))"

text \<open>\<open>SUM\<close> over a column: \<open>NULL\<close> when there is no row.\<close>

definition sql_sum :: "int list \<Rightarrow> int option" where
  "sql_sum xs = (if xs = [] then None else Some (sum_list xs))"

record card_data =
  numberOfCustomers :: nat
  numberOfInvoices :: nat
  totalPaidInvoices :: string
  totalPendingInvoices :: string

text \<open>
  \<open>formatCurrency\<close> lives in \<open>utils.ts\<close>, which is not among the sources: it is a
  parameter, applied to the numeric value of its argument. \<open>x ?? "0"\<close> is the value 0
  when the aggregate is \<open>NULL\<close>.
\<close>

definition nullish_zero :: "int option \<Rightarrow> int" where
  "nullish_zero v = (case v of None \<Rightarrow> 0 | Some x \<Rightarrow> x)"

definition fetchCardData :: "(int \<Rightarrow> string) \<Rightarrow> database \<Rightarrow> card_data outcome" where
  "fetchCardData formatCurrency d =
     (if \<not> connected d then Threw ''Failed to fetch card data.''
      else
        let invoiceCount = length (invoices d);
            customerCount = length (customers d);
            paid = sql_sum (map (\<lambda>i. if invoice_status i = ''paid'' then invoice_amount i else 0)
                              (invoices d));
            pending = sql_sum (map (\<lambda>i. if invoice_status i = ''pending'' then invoice_amount i else 0)
                                 (invoices d))
        in Returned \<lparr>numberOfCustomers = customerCount, numberOfInvoices = invoiceCount,
                      totalPaidInvoices = formatCurrency (nullish_zero paid),
                      totalPendingInvoices = formatCurrency (nullish_zero pending)\<rparr>)"

section \<open>Authentication adapter (\<open>auth.ts\<close>)\<close>

record credentials =
  cred_email :: entry
  cred_password :: entry

text \<open>
  \<open>z.object({ email: z.string().email(), password: z.string().min(6) })\<close>. The library's
  test of the email format is the parameter \<open>is_email\<close>.
\<close>

definition parse_credentials :: "(string \<Rightarrow> bool) \<Rightarrow> credentials \<Rightarrow> (string \<times> string) option" where
  "parse_credentials is_email c =
     (case (cred_email c, cred_password c) of
        (Text e, Text p) \<Rightarrow> if is_email e \<and> 6 \<le> length p then Some (e, p) else None
      | _ \<Rightarrow> None)"

text \<open>\<open>SELECT * FROM users WHERE email = $1\<close>, then \<open>user[0]\<close>.\<close>

definition getUser :: "string \<Rightarrow> database \<Rightarrow> user option outcome" where
  "getUser email d =
     (if \<not> connected d then Threw ''Failed to fetch user.''
      else Returned (case filter (\<lambda>u. user_email u = email) (users d) of
                       [] \<Rightarrow> None | u # _ \<Rightarrow> Some u))"

text \<open>
  \<open>bcrypt.compare\<close> is the parameter \<open>compare\<close> (supplied password first, stored hash
  second). \<open>None\<close> is the \<open>null\<close> of the code.
\<close>

definition authorize ::
  "(string \<Rightarrow> bool) \<Rightarrow> (string \<Rightarrow> string \<Rightarrow> bool) \<Rightarrow> credentials \<Rightarrow> database \<Rightarrow> user option outcome" where
  "authorize is_email compare c d =
     (case parse_credentials is_email c of
        Some (email, password) \<Rightarrow>
          (case getUser email d of
             Returned None \<Rightarrow> Returned None
           | Returned (Some u) \<Rightarrow>
               if compare password (user_password u) then Returned (Some u) else Returned None
           | Threw msg \<Rightarrow> Threw msg
           | Redirected p \<Rightarrow> Redirected p)
      | None \<Rightarrow> Returned None)"

section \<open>The properties as the specification words them\<close>

text \<open>
  These definitions follow the wording of the specification, not the code; the theorems
  below compare them with the code.
\<close>

text \<open>\<open>round(dollars * 100)\<close>\<close>

definition spec_cents :: "rat \<Rightarrow> int" where
  "spec_cents dollars = round (dollars * 100)"

text \<open>A text case-insensitively contains the query.\<close>

definition contains_ci :: "string \<Rightarrow> string \<Rightarrow> bool" where
  "contains_ci query s = sublist (map lower query) (map lower s)"

definition spec_matches :: "string \<Rightarrow> invoice \<times> customer \<Rightarrow> bool" where
  "spec_matches query r =
     (case r of (i, c) \<Rightarrow>
        contains_ci query (customer_name c) \<or>
        contains_ci query (customer_email c) \<or>
        contains_ci query (int_text (invoice_amount i)) \<or>
        contains_ci query (invoice_date i) \<or>
        contains_ci query (invoice_status i))"

definition spec_matchCount :: "string \<Rightarrow> database \<Rightarrow> nat" where
  "spec_matchCount query d = length (filter (spec_matches query) (invoices_join_customers d))"

text \<open>\<open>ceil(matchCount / 6)\<close>\<close>

definition spec_pages :: "string \<Rightarrow> database \<Rightarrow> int" where
  "spec_pages query d = \<lceil>(of_nat (spec_matchCount query d) :: rat) / 6\<rceil>"

text \<open>A query without the characters that \<open>LIKE\<close> treats specially.\<close>

definition wildcard_free :: "string \<Rightarrow> bool" where
  "wildcard_free query =
     list_all (\<lambda>c. c \<noteq> CHR ''%'' \<and> c \<noteq> CHR ''_'' \<and> c \<noteq> CHR 0x5C) query"

text \<open>Rows in descending order of date.\<close>

definition dates_descending :: "invoices_table list \<Rightarrow> bool" where
  "dates_descending rows = sorted_wrt (\<lambda>x y. table_date y \<le> table_date x) rows"

section \<open>Sample data\<close>

text \<open>Small concrete tables on which the examples below are evaluated.\<close>

abbreviation bob :: customer where
  "bob \<equiv> \<lparr>customer_id = ''c1'', customer_name = ''Bob'', customer_email = ''bob@x.io'',
           customer_image_url = ''/b.png''\<rparr>"

abbreviation invoice1 :: invoice where
  "invoice1 \<equiv> \<lparr>invoice_id = ''i1'', invoice_customer_id = ''c1'', invoice_amount = 1500,
                invoice_status = ''paid'', invoice_date = ''2024-01-05''\<rparr>"

abbreviation db1 :: database where
  "db1 \<equiv> \<lparr>invoices = [invoice1], customers = [bob], users = [], connected = True\<rparr>"

abbreviation user1 :: user where
  "user1 \<equiv> \<lparr>user_id = ''u1'', user_email = ''user@nextmail.com'', user_password = ''123456''\<rparr>"

abbreviation db_users :: database where
  "db_users \<equiv> \<lparr>invoices = [], customers = [bob], users = [user1], connected = True\<rparr>"

abbreviation db_down :: database where
  "db_down \<equiv> \<lparr>invoices = [invoice1], customers = [bob], users = [user1], connected = False\<rparr>"

abbreviation world1 :: world where
  "world1 \<equiv> \<lparr>db = db1, revalidated = [], issued = []\<rparr>"

abbreviation world_down :: world where
  "world_down \<equiv> \<lparr>db = db_down, revalidated = [], issued = []\<rparr>"

abbreviation invoice_on :: "string \<Rightarrow> string \<Rightarrow> invoice" where
  "invoice_on n day \<equiv> \<lparr>invoice_id = n, invoice_customer_id = ''c1'', invoice_amount = 1500,
                 invoice_status = ''paid'', invoice_date = day\<rparr>"

abbreviation db7 :: database where
  "db7 \<equiv> \<lparr>invoices = [invoice_on ''a'' ''2024-01-03'', invoice_on ''b'' ''2024-01-07'', invoice_on ''c'' ''2024-01-01'',
                       invoice_on ''d'' ''2024-01-05'', invoice_on ''e'' ''2024-01-02'', invoice_on ''f'' ''2024-01-06'',
                       invoice_on ''g'' ''2024-01-04''],
          customers = [bob], users = [], connected = True\<rparr>"

text \<open>A runtime whose \<open>Number\<close> is tabulated on the strings the examples use.\<close>

abbreviation rt1 :: runtime where
  "rt1 \<equiv> \<lparr>str_to_num = (\<lambda>s. if s = ''12.50'' then Num (25 / 2)
                             else if s = ''0.0625'' then Num (1 / 16)
                             else if s = ''0'' then Num 0 else NaN),
          now_iso = ''2024-05-06T07:08:09.123Z'', new_id = ''i2''\<rparr>"

text \<open>
  A runtime whose \<open>Number\<close> gives, for each decimal string of the examples, the double
  nearest to it.
\<close>

abbreviation rt_doubles :: runtime where
  "rt_doubles \<equiv>
     \<lparr>str_to_num = (\<lambda>s. if s = ''19.99'' then Num (5626684784446013 / 281474976710656)
                        else if s = ''0.1'' then Num (3602879701896397 / 36028797018963968)
                        else NaN),
      now_iso = ''2024-05-06T07:08:09.123Z'', new_id = ''i2''\<rparr>"

abbreviation form_of :: "string \<Rightarrow> form_data" where
  "form_of amount \<equiv> \<lparr>form_customerId = Text ''c1'', form_amount = Text amount,
                      form_status = Text ''pending''\<rparr>"

abbreviation login :: credentials where
  "login \<equiv> \<lparr>cred_email = Text ''user@nextmail.com'', cred_password = Text ''123456''\<rparr>"

section \<open>Pattern matching against containment\<close>

lemma like_percent_only: "like ''%'' s"
  by (induction s) simp_all

lemma like_percent_iff:
  "like (CHR ''%'' # ps) s \<longleftrightarrow> (\<exists>pre t. s = pre @ t \<and> like ps t)"
proof (induction s)
  case Nil
  then show ?case by simp
next
  case (Cons c s)
  have "like (CHR ''%'' # ps) (c # s) \<longleftrightarrow> like ps (c # s) \<or> like (CHR ''%'' # ps) s"
    by simp
  also have "\<dots> \<longleftrightarrow> like ps (c # s) \<or> (\<exists>pre t. s = pre @ t \<and> like ps t)"
    using Cons.IH by simp
  also have "\<dots> \<longleftrightarrow> (\<exists>pre t. c # s = pre @ t \<and> like ps t)"
  proof
    assume "like ps (c # s) \<or> (\<exists>pre t. s = pre @ t \<and> like ps t)"
    then show "\<exists>pre t. c # s = pre @ t \<and> like ps t"
    proof
      assume "like ps (c # s)"
      then have "c # s = [] @ (c # s) \<and> like ps (c # s)" by simp
      then show ?thesis by blast
    next
      assume "\<exists>pre t. s = pre @ t \<and> like ps t"
      then obtain pre t where "s = pre @ t" "like ps t" by blast
      then have "c # s = (c # pre) @ t \<and> like ps t" by simp
      then show ?thesis by blast
    qed
  next
    assume "\<exists>pre t. c # s = pre @ t \<and> like ps t"
    then obtain pre t where pt: "c # s = pre @ t" "like ps t" by blast
    show "like ps (c # s) \<or> (\<exists>pre t. s = pre @ t \<and> like ps t)"
    proof (cases pre)
      case Nil
      with pt show ?thesis by simp
    next
      case (Cons a pre')
      with pt have "s = pre' @ t" by simp
      with pt show ?thesis by blast
    qed
  qed
  finally show ?case .
qed

lemma like_literal_iff:
  "wildcard_free lit \<Longrightarrow> like (lit @ ps) s \<longleftrightarrow> (\<exists>t. s = lit @ t \<and> like ps t)"
proof (induction lit arbitrary: s)
  case Nil
  then show ?case by simp
next
  case (Cons a lit)
  then have a: "a \<noteq> CHR ''%''" "a \<noteq> CHR ''_''" "a \<noteq> CHR 0x5C" and lit: "wildcard_free lit"
    by (simp_all add: wildcard_free_def)
  show ?case
  proof (cases s)
    case Nil
    with a show ?thesis by simp
  next
    case (Cons c t)
    with a have "like ((a # lit) @ ps) s \<longleftrightarrow> c = a \<and> like (lit @ ps) t" by simp
    also have "\<dots> \<longleftrightarrow> c = a \<and> (\<exists>u. t = lit @ u \<and> like ps u)"
      using Cons.IH [OF lit] by simp
    also have "\<dots> \<longleftrightarrow> (\<exists>u. s = (a # lit) @ u \<and> like ps u)"
      using Cons by auto
    finally show ?thesis .
  qed
qed

lemma like_contains:
  assumes "wildcard_free lit"
  shows "like (CHR ''%'' # lit @ ''%'') s \<longleftrightarrow> sublist lit s"
proof -
  have "like (CHR ''%'' # lit @ ''%'') s \<longleftrightarrow> (\<exists>pre t. s = pre @ t \<and> like (lit @ ''%'') t)"
    by (rule like_percent_iff)
  also have "\<dots> \<longleftrightarrow> (\<exists>pre t. s = pre @ t \<and> (\<exists>u. t = lit @ u \<and> like ''%'' u))"
    using like_literal_iff [OF assms] by simp
  also have "\<dots> \<longleftrightarrow> (\<exists>pre u. s = pre @ lit @ u)"
    by (auto simp: like_percent_only simp del: like.simps)
  also have "\<dots> \<longleftrightarrow> sublist lit s"
    by (simp add: sublist_def)
  finally show ?thesis .
qed

lemma lower_not_special:
  "lower c \<noteq> CHR ''%'' \<and> lower c \<noteq> CHR ''_'' \<and> lower c \<noteq> CHR 0x5C \<longleftrightarrow>
   c \<noteq> CHR ''%'' \<and> c \<noteq> CHR ''_'' \<and> c \<noteq> CHR 0x5C"
proof (cases "65 \<le> (of_char c :: nat) \<and> (of_char c :: nat) \<le> 90")
  case False
  then have "lower c = c" unfolding lower_def by (simp only: if_False)
  then show ?thesis by simp
next
  case True
  define n where "n = (of_char c :: nat)"
  have n: "65 \<le> n" "n \<le> 90" using True by (simp_all add: n_def)
  have low: "lower c = char_of (n + 32)" using True by (simp add: lower_def n_def)
  have round_trip: "(of_char (char_of (n + 32) :: char) :: nat) = n + 32"
    using n by (simp add: of_char_of)
  have c1: "c \<noteq> CHR ''%''" "c \<noteq> CHR ''_''" "c \<noteq> CHR 0x5C"
    using n by (auto simp: n_def)
  have "(of_char (lower c) :: nat) \<noteq> of_char (CHR ''%'')"
       "(of_char (lower c) :: nat) \<noteq> of_char (CHR ''_'')"
       "(of_char (lower c) :: nat) \<noteq> of_char (CHR 0x5C)"
    using n by (simp_all add: low round_trip)
  then have "lower c \<noteq> CHR ''%''" "lower c \<noteq> CHR ''_''" "lower c \<noteq> CHR 0x5C"
    by auto
  with c1 show ?thesis by simp
qed

lemma wildcard_free_lower: "wildcard_free (map lower q) = wildcard_free q"
  by (induction q) (simp_all add: wildcard_free_def lower_not_special)

lemma lower_percent: "lower (CHR ''%'') = CHR ''%''"
  by (simp add: lower_def)

lemma ilike_contains:
  assumes "wildcard_free query"
  shows "ilike (search_pattern query) s = contains_ci query s"
proof -
  have "wildcard_free (map lower query)"
    using assms by (simp only: wildcard_free_lower)
  then have "like (CHR ''%'' # map lower query @ ''%'') (map lower s)
      \<longleftrightarrow> sublist (map lower query) (map lower s)"
    by (rule like_contains)
  moreover have "map lower (search_pattern query) = CHR ''%'' # map lower query @ ''%''"
    by (simp add: search_pattern_def lower_percent)
  ultimately show ?thesis
    by (simp only: ilike_def contains_ci_def)
qed

lemma matches_query_spec:
  "wildcard_free query \<Longrightarrow> matches_query query r = spec_matches query r"
  by (cases r) (simp add: matches_query_def spec_matches_def ilike_contains)

section \<open>Page count (\<open>fetchInvoicesPages\<close>)\<close>

lemma totalPages_div: "totalPages n = (int n + 5) div 6"
proof -
  have "totalPages n = \<lceil>(of_int (int n) :: rat) / of_int 6\<rceil>"
    by (simp add: totalPages_def ITEMS_PER_PAGE_def)
  also have "\<dots> = - (- int n div 6)"
    by (rule ceiling_divide_eq_div)
  also have "\<dots> = (int n + 5) div 6"
    by presburger
  finally show ?thesis .
qed

lemma select_count_spec:
  "wildcard_free query \<Longrightarrow> select_count query d = spec_matchCount query d"
  by (simp add: select_count_def spec_matchCount_def matches_query_spec cong: filter_cong)

text \<open>
  C2 (amended). When the database answers, \<open>fetchInvoicesPages\<close> returns
  \<open>ceil(count / 6)\<close>, where \<open>count\<close> is the number of joined invoice rows of which the
  customer name, the email, or the text of the amount, the date or the status matches the
  \<open>ILIKE\<close> pattern \<open>%query%\<close>; 13 rows give 3 pages and 0 rows give 0 pages. For a query
  without \<open>%\<close>, \<open>_\<close> and backslash, matching the pattern is case-insensitive
  containment of the query, and the result is the page count as the specification words it.
\<close>

theorem fetchInvoicesPages_ceil:
  "connected d \<Longrightarrow>
     fetchInvoicesPages query d = Returned (totalPages (select_count query d)) \<and>
     totalPages n = \<lceil>(of_nat n :: rat) / 6\<rceil> \<and>
     totalPages 13 = 3 \<and> totalPages 0 = 0 \<and>
     (wildcard_free query \<longrightarrow>
        select_count query d = spec_matchCount query d \<and>
        fetchInvoicesPages query d = Returned (spec_pages query d))"
proof -
  assume c: "connected d"
  have 1: "fetchInvoicesPages query d = Returned (totalPages (select_count query d))"
    using c by (simp add: fetchInvoicesPages_def)
  have 2: "totalPages n = \<lceil>(of_nat n :: rat) / 6\<rceil>"
    by (simp add: totalPages_def ITEMS_PER_PAGE_def)
  have 3: "totalPages 13 = 3" "totalPages 0 = 0"
    by (simp_all add: totalPages_div)
  have 4: "fetchInvoicesPages query d = Returned (spec_pages query d)" if "wildcard_free query"
    using 1 select_count_spec [OF that, of d]
    by (simp add: spec_pages_def totalPages_def ITEMS_PER_PAGE_def)
  show ?thesis
    using 1 2 3 4 select_count_spec by blast
qed

text \<open>
  C2 as stated fails for a query with a pattern character: the query \<open>_\<close> matches the
  one invoice of the sample (one page), although none of its five texts contains an
  underscore (zero pages by containment).
\<close>

theorem fetchInvoicesPages_wildcard_counterexample:
  "fetchInvoicesPages ''_'' db1 = Returned 1 \<and>
   spec_matchCount ''_'' db1 = 0 \<and> spec_pages ''_'' db1 = 0"
proof -
  have a: "fetchInvoicesPages ''_'' db1 = Returned 1" by code_simp
  have b: "spec_matchCount ''_'' db1 = 0" by code_simp
  have c: "spec_pages ''_'' db1 = 0" by code_simp
  from a b c show ?thesis by (intro conjI)
qed
theorem fetchInvoicesPages_ceil_witness:
  "connected db1 \<and> wildcard_free ''bO'' \<and>
   fetchInvoicesPages ''bO'' db1 = Returned 1 \<and> spec_pages ''bO'' db1 = 1"
proof -
  have c: "connected db1" by simp
  have w: "wildcard_free ''bO''" by code_simp
  have p: "spec_pages ''bO'' db1 = 1" by code_simp
  from fetchInvoicesPages_ceil [OF c, of "''bO''" 0] w
  have "fetchInvoicesPages ''bO'' db1 = Returned (spec_pages ''bO'' db1)" by blast
  then have r: "fetchInvoicesPages ''bO'' db1 = Returned 1" by (simp only: p)
  from c w r p show ?thesis by (intro conjI)
qed

section \<open>Sign-in errors (\<open>authenticate\<close>)\<close>

text \<open>
  C5. When the sign-in call fails with an authentication error, \<open>authenticate\<close> returns
  \<open>Invalid credentials.\<close> if the error's type is \<open>CredentialsSignin\<close> and the one
  generic message for every other type; any other thrown value is thrown again unchanged.
  \<open>Invalid credentials.\<close> is returned for no other failure.
\<close>

theorem authenticate_error_mapping:
  "authenticate (Rejected (AuthError ty)) =
     Auth_returned (Some (if ty = ''CredentialsSignin'' then ''Invalid credentials.''
                          else ''Something went wrong.'')) \<and>
   authenticate (Rejected (Other_error e)) = Auth_rethrown (Other_error e) \<and>
   (authenticate (Rejected x) = Auth_returned (Some ''Invalid credentials.'')
      \<longleftrightarrow> x = AuthError ''CredentialsSignin'')"
  by (cases x) (simp_all add: authenticate_def)

section \<open>Deleting an invoice (\<open>deleteInvoice\<close>)\<close>

text \<open>
  C8. \<open>deleteInvoice\<close> sends one \<open>DELETE\<close>. When the statement succeeds, no row with
  the given id is left and every other row is kept, the invoices listing is revalidated, and
  the confirmation message is returned. When the statement fails, the database error
  message is returned, and nothing is revalidated or changed. It never throws and never
  redirects.
\<close>

theorem deleteInvoice_outcome:
  "(connected (db w) \<longrightarrow>
      deleteInvoice id' w =
        (Returned \<lparr>errors = None, message = Some ''Deleted Invoice''\<rparr>,
         w\<lparr>db := (db w)\<lparr>invoices := filter (\<lambda>i. invoice_id i \<noteq> id') (invoices (db w))\<rparr>,
           revalidated := revalidated w @ [''/dashboard/invoices''],
           issued := issued w @ [DELETE]\<rparr>) \<and>
      set (invoices (db (snd (deleteInvoice id' w)))) =
        {i \<in> set (invoices (db w)). invoice_id i \<noteq> id'}) \<and>
   (\<not> connected (db w) \<longrightarrow>
      deleteInvoice id' w =
        (Returned \<lparr>errors = None, message = Some ''Database Error: Failed to Delete Invoice.''\<rparr>,
         w\<lparr>issued := issued w @ [DELETE]\<rparr>)) \<and>
   (\<exists>st. fst (deleteInvoice id' w) = Returned st)"
  by (simp add: deleteInvoice_def delete_invoice_def)

theorem deleteInvoice_outcome_witness:
  "connected (db world1) \<and>
   deleteInvoice ''i1'' world1 =
     (Returned \<lparr>errors = None, message = Some ''Deleted Invoice''\<rparr>,
      \<lparr>db = \<lparr>invoices = [], customers = [bob], users = [], connected = True\<rparr>,
       revalidated = [''/dashboard/invoices''], issued = [DELETE]\<rparr>) \<and>
   \<not> connected (db world_down) \<and>
   deleteInvoice ''i1'' world_down =
     (Returned \<lparr>errors = None, message = Some ''Database Error: Failed to Delete Invoice.''\<rparr>,
      \<lparr>db = db_down, revalidated = [], issued = [DELETE]\<rparr>)"
  using deleteInvoice_outcome [of world1 "''i1''"] deleteInvoice_outcome [of world_down "''i1''"]
  by simp

section \<open>Card data on an empty invoices table (\<open>fetchCardData\<close>)\<close>

text \<open>
  C9. With no invoice row, both \<open>SUM\<close> aggregates are \<open>NULL\<close>; \<open>fetchCardData\<close> still
  returns a result, in which both totals are the currency format of 0 and the invoice count
  is the number 0 (the customer count is the number of customers).
\<close>

lemma sql_sum_empty: "sql_sum (map f []) = None"
  by (simp add: sql_sum_def)

theorem fetchCardData_empty_invoices:
  "connected d \<Longrightarrow> invoices d = [] \<Longrightarrow>
     sql_sum (map (\<lambda>i. if invoice_status i = ''paid'' then invoice_amount i else 0) (invoices d)) = None \<and>
     fetchCardData formatCurrency d =
       Returned \<lparr>numberOfCustomers = length (customers d), numberOfInvoices = 0,
                 totalPaidInvoices = formatCurrency 0, totalPendingInvoices = formatCurrency 0\<rparr>"
  by (simp add: fetchCardData_def sql_sum_def nullish_zero_def)

theorem fetchCardData_empty_invoices_witness:
  "connected db_users \<and> invoices db_users = [] \<and>
   fetchCardData int_text db_users =
     Returned \<lparr>numberOfCustomers = 1, numberOfInvoices = 0,
               totalPaidInvoices = ''0'', totalPendingInvoices = ''0''\<rparr>"
proof -
  have z: "int_text 0 = ''0''" by code_simp
  show ?thesis
    using fetchCardData_empty_invoices [of db_users int_text] by (simp add: z)
qed

section \<open>One invoice by id (\<open>fetchInvoiceById\<close>)\<close>

lemma first_of_filter:
  "(case filter P xs of [] \<Rightarrow> None | x # _ \<Rightarrow> Some x) = find P xs"
  by (induction xs) auto

lemma first_of_map_filter:
  "(case map f (filter P xs) of [] \<Rightarrow> None | x # _ \<Rightarrow> Some x) = map_option f (find P xs)"
  by (induction xs) auto

text \<open>
  C6. When the query succeeds: for an id that no invoice row has, \<open>fetchInvoiceById\<close>
  returns \<open>undefined\<close> and does not throw; for an id that a row has, it returns that row's
  id, customer and status with the amount equal to the stored cents divided by 100.
\<close>

theorem fetchInvoiceById_result:
  "connected d \<Longrightarrow>
     (id' \<notin> set (map invoice_id (invoices d)) \<longrightarrow> fetchInvoiceById id' d = Returned None) \<and>
     (find (\<lambda>i. invoice_id i = id') (invoices d) = Some i \<longrightarrow>
        invoice_id i = id' \<and> i \<in> set (invoices d) \<and>
        fetchInvoiceById id' d =
          Returned (Some \<lparr>form_id = id', form_customer_id = invoice_customer_id i,
                          form_amount_dollars = of_int (invoice_amount i) / 100,
                          form_invoice_status = invoice_status i\<rparr>))"
proof -
  assume c: "connected d"
  let ?P = "\<lambda>i. invoice_id i = id'"
  let ?f = "\<lambda>i. \<lparr>form_id = invoice_id i, form_customer_id = invoice_customer_id i,
                   form_amount_dollars = of_int (invoice_amount i) / 100,
                   form_invoice_status = invoice_status i\<rparr>"
  have r: "fetchInvoiceById id' d = Returned (map_option ?f (find ?P (invoices d)))"
    using c by (simp add: fetchInvoiceById_def first_of_map_filter)
  have none: "find ?P (invoices d) = None" if "id' \<notin> set (map invoice_id (invoices d))"
    using that by (auto simp: find_None_iff)
  have some: "invoice_id i = id' \<and> i \<in> set (invoices d)" if "find ?P (invoices d) = Some i"
    using that by (auto simp: find_Some_iff)
  show ?thesis
    using r none some by auto
qed

theorem fetchInvoiceById_result_witness:
  "connected db1 \<and> ''nope'' \<notin> set (map invoice_id (invoices db1)) \<and>
   fetchInvoiceById ''nope'' db1 = Returned None \<and>
   find (\<lambda>i. invoice_id i = ''i1'') (invoices db1) = Some invoice1 \<and>
   fetchInvoiceById ''i1'' db1 =
     Returned (Some \<lparr>form_id = ''i1'', form_customer_id = ''c1'', form_amount_dollars = 15,
                     form_invoice_status = ''paid''\<rparr>)"
  using fetchInvoiceById_result [of db1 "''nope''" invoice1]
    fetchInvoiceById_result [of db1 "''i1''" invoice1]
  by simp

section \<open>Credentials (\<open>authorize\<close>)\<close>

lemma parse_credentials_Some_iff:
  "parse_credentials is_email c = Some (e, p) \<longleftrightarrow>
     cred_email c = Text e \<and> cred_password c = Text p \<and> is_email e \<and> 6 \<le> length p"
  by (auto simp: parse_credentials_def split: entry.splits)

lemma getUser_find:
  "connected d \<Longrightarrow> getUser email d = Returned (find (\<lambda>u. user_email u = email) (users d))"
  by (simp add: getUser_def first_of_filter)

lemma authorize_parsed:
  "parse_credentials is_email c = Some (e, p) \<Longrightarrow>
     authorize is_email compare c d =
       (if \<not> connected d then Threw ''Failed to fetch user.''
        else case find (\<lambda>u. user_email u = e) (users d) of
               None \<Rightarrow> Returned None
             | Some u \<Rightarrow> if compare p (user_password u) then Returned (Some u) else Returned None)"
  by (cases "connected d")
     (simp_all add: authorize_def getUser_find, simp add: getUser_def split: option.splits)

text \<open>
  C4. The credentials pass the shape check exactly when email and password are strings, the
  email has the email format and the password has at least 6 characters. If they do not
  pass, \<open>authorize\<close> returns \<open>null\<close>. If they pass and the lookup answers: with no user
  row for the email the result is \<open>null\<close>; otherwise it is the (first) user row for the
  email when the supplied password matches that row's stored hash, and \<open>null\<close> when it
  does not.
\<close>

theorem authorize_cases:
  "(parse_credentials is_email c = Some (e, p) \<longleftrightarrow>
      cred_email c = Text e \<and> cred_password c = Text p \<and> is_email e \<and> 6 \<le> length p) \<and>
   (parse_credentials is_email c = None \<longrightarrow> authorize is_email compare c d = Returned None) \<and>
   (parse_credentials is_email c = Some (e, p) \<and> connected d \<longrightarrow>
      (find (\<lambda>u. user_email u = e) (users d) = None \<longrightarrow>
         authorize is_email compare c d = Returned None) \<and>
      (find (\<lambda>u. user_email u = e) (users d) = Some u \<longrightarrow>
         authorize is_email compare c d =
           Returned (if compare p (user_password u) then Some u else None)))"
proof -
  have 1: "authorize is_email compare c d = Returned None"
    if "parse_credentials is_email c = None"
    using that by (simp add: authorize_def)
  have 2: "authorize is_email compare c d = Returned None"
    if "parse_credentials is_email c = Some (e, p)" "connected d"
       "find (\<lambda>u. user_email u = e) (users d) = None"
    using that by (simp add: authorize_parsed)
  have 3: "authorize is_email compare c d =
             Returned (if compare p (user_password u) then Some u else None)"
    if "parse_credentials is_email c = Some (e, p)" "connected d"
       "find (\<lambda>u. user_email u = e) (users d) = Some u"
    using that by (simp add: authorize_parsed)
  show ?thesis
    using 1 2 3 parse_credentials_Some_iff [of is_email c e p] by blast
qed

theorem authorize_cases_witness:
  "parse_credentials (sublist ''@'') login = Some (''user@nextmail.com'', ''123456'') \<and>
   connected db_users \<and>
   find (\<lambda>u. user_email u = ''user@nextmail.com'') (users db_users) = Some user1 \<and>
   authorize (sublist ''@'') (=) login db_users = Returned (Some user1) \<and>
   find (\<lambda>u. user_email u = ''user@nextmail.com'') (users db1) = None \<and>
   authorize (sublist ''@'') (=) login db1 = Returned None \<and>
   parse_credentials (sublist ''@'') (login\<lparr>cred_password := Text ''12345''\<rparr>) = None \<and>
   authorize (sublist ''@'') (=) (login\<lparr>cred_password := Text ''12345''\<rparr>) db_users = Returned None"
proof -
  have p: "parse_credentials (sublist ''@'') login = Some (''user@nextmail.com'', ''123456'')"
    by code_simp
  have q: "parse_credentials (sublist ''@'') (login\<lparr>cred_password := Text ''12345''\<rparr>) = None"
    by code_simp
  have f: "find (\<lambda>u. user_email u = ''user@nextmail.com'') (users db_users) = Some user1"
    by simp
  have g: "find (\<lambda>u. user_email u = ''user@nextmail.com'') (users db1) = None"
    by simp
  have c: "connected db_users" "connected db1" by simp_all
  from authorize_cases [of "sublist ''@''" login "''user@nextmail.com''" "''123456''" "(=)" db_users user1]
    p c f
  have a1: "authorize (sublist ''@'') (=) login db_users = Returned (Some user1)" by simp
  from authorize_cases [of "sublist ''@''" login "''user@nextmail.com''" "''123456''" "(=)" db1 user1]
    p c g
  have a2: "authorize (sublist ''@'') (=) login db1 = Returned None" by blast
  from authorize_cases [of "sublist ''@''" "login\<lparr>cred_password := Text ''12345''\<rparr>"
      "''user@nextmail.com''" "''123456''" "(=)" db_users user1] q
  have a3: "authorize (sublist ''@'') (=) (login\<lparr>cred_password := Text ''12345''\<rparr>) db_users
              = Returned None" by blast
  from p c f g q a1 a2 a3 show ?thesis by (intro conjI)
qed

text \<open>
  C10. With well-formed credentials, a failing user lookup makes \<open>authorize\<close> throw
  \<open>Failed to fetch user.\<close> instead of returning \<open>null\<close>. So whenever \<open>authorize\<close>
  returns \<open>null\<close>, the credentials were rejected: they have a bad shape, or the lookup
  answered and found no user for the email, or it found one whose stored hash the password
  does not match.
\<close>

theorem authorize_lookup_failure:
  "(parse_credentials is_email c = Some (e, p) \<and> \<not> connected d \<longrightarrow>
      authorize is_email compare c d = Threw ''Failed to fetch user.'' \<and>
      getUser e d = Threw ''Failed to fetch user.'') \<and>
   (authorize is_email compare c d = Returned None \<longrightarrow>
      parse_credentials is_email c = None \<or>
      (\<exists>e' p'. parse_credentials is_email c = Some (e', p') \<and> connected d \<and>
         (find (\<lambda>u. user_email u = e') (users d) = None \<or>
          (\<exists>u. find (\<lambda>u. user_email u = e') (users d) = Some u \<and>
               \<not> compare p' (user_password u)))))"
proof -
  have 1: "authorize is_email compare c d = Threw ''Failed to fetch user.''"
    if "parse_credentials is_email c = Some (e, p)" "\<not> connected d"
    using that by (simp add: authorize_parsed)
  have 2: "getUser e d = Threw ''Failed to fetch user.''" if "\<not> connected d"
    using that by (simp add: getUser_def)
  have 3: "\<exists>e' p'. parse_credentials is_email c = Some (e', p') \<and> connected d \<and>
         (find (\<lambda>u. user_email u = e') (users d) = None \<or>
          (\<exists>u. find (\<lambda>u. user_email u = e') (users d) = Some u \<and>
               \<not> compare p' (user_password u)))"
    if r: "authorize is_email compare c d = Returned None"
      and n: "parse_credentials is_email c \<noteq> None"
  proof -
    from n obtain e' p' where s: "parse_credentials is_email c = Some (e', p')" by auto
    from r authorize_parsed [OF s, of compare d]
    have "connected d \<and>
         (find (\<lambda>u. user_email u = e') (users d) = None \<or>
          (\<exists>u. find (\<lambda>u. user_email u = e') (users d) = Some u \<and>
               \<not> compare p' (user_password u)))"
      by (auto split: if_splits option.splits)
    with s show ?thesis by blast
  qed
  show ?thesis
    using 1 2 3 by blast
qed

theorem authorize_lookup_failure_witness:
  "parse_credentials (sublist ''@'') login = Some (''user@nextmail.com'', ''123456'') \<and>
   \<not> connected db_down \<and>
   authorize (sublist ''@'') (=) login db_down = Threw ''Failed to fetch user.'' \<and>
   authorize (sublist ''@'') (=) login db1 = Returned None \<and>
   connected db1 \<and> find (\<lambda>u. user_email u = ''user@nextmail.com'') (users db1) = None"
proof -
  have p: "parse_credentials (sublist ''@'') login = Some (''user@nextmail.com'', ''123456'')"
    by code_simp
  have c: "\<not> connected db_down" "connected db1" by simp_all
  have g: "find (\<lambda>u. user_email u = ''user@nextmail.com'') (users db1) = None"
    by simp
  from authorize_lookup_failure [of "sublist ''@''" login "''user@nextmail.com''" "''123456''"
      db_down "(=)"] p c
  have a1: "authorize (sublist ''@'') (=) login db_down = Threw ''Failed to fetch user.''"
    by blast
  have a2: "authorize (sublist ''@'') (=) login db1 = Returned None"
    using p by (simp add: authorize_parsed)
  from p c g a1 a2 show ?thesis by (intro conjI)
qed

section \<open>A page of invoices (\<open>fetchFilteredInvoices\<close>)\<close>

lemma mset_insert_desc: "mset (insert_desc r xs) = add_mset r (mset xs)"
  by (induction xs) simp_all

lemma mset_order_by_date_desc: "mset (order_by_date_desc xs) = mset xs"
  by (induction xs) (simp_all add: order_by_date_desc_def mset_insert_desc)

lemma set_insert_desc: "set (insert_desc r xs) = insert r (set xs)"
  by (induction xs) auto

lemma sorted_insert_desc:
  "sorted_wrt (\<lambda>x y. invoice_date (fst y) \<le> invoice_date (fst x)) xs \<Longrightarrow>
   sorted_wrt (\<lambda>x y. invoice_date (fst y) \<le> invoice_date (fst x)) (insert_desc r xs)"
proof (induction xs)
  case Nil
  then show ?case by simp
next
  case (Cons x xs)
  show ?case
  proof (cases "invoice_date (fst x) \<le> invoice_date (fst r)")
    case True
    with Cons.prems show ?thesis by auto
  next
    case False
    then have "invoice_date (fst r) \<le> invoice_date (fst x)" by simp
    with False Cons show ?thesis by (auto simp: set_insert_desc)
  qed
qed

lemma sorted_order_by_date_desc:
  "sorted_wrt (\<lambda>x y. invoice_date (fst y) \<le> invoice_date (fst x)) (order_by_date_desc xs)"
  by (induction xs) (simp_all add: order_by_date_desc_def sorted_insert_desc)

lemma table_date_select: "table_date (select_invoices_table r) = invoice_date (fst r)"
  by (cases r) (simp add: select_invoices_table_def)

lemma dates_descending_page:
  assumes "sorted_wrt (\<lambda>x y. invoice_date (fst y) \<le> invoice_date (fst x)) xs"
  shows "dates_descending (map select_invoices_table (take n (drop k xs)))"
proof -
  have "sorted_wrt (\<lambda>x y. invoice_date (fst y) \<le> invoice_date (fst x)) (take n (drop k xs))"
    using assms by (simp add: sorted_wrt_take sorted_wrt_drop)
  then show ?thesis
    by (simp add: dates_descending_def sorted_wrt_map table_date_select)
qed

lemma fetchFilteredInvoices_page:
  "connected d \<Longrightarrow> 1 \<le> page \<Longrightarrow>
     fetchFilteredInvoices query page d =
       Returned (map select_invoices_table
                  (take 6 (drop (nat ((page - 1) * 6)) (select_ordered query d))))"
  by (simp add: fetchFilteredInvoices_def ITEMS_PER_PAGE_def Let_def)

text \<open>
  C7 (amended). When the query succeeds and the page number is at least 1,
  \<open>fetchFilteredInvoices\<close> returns rows \<open>(page-1)*6+1\<close> to \<open>(page-1)*6+6\<close> (as far as
  they exist) of the matching rows in descending order of date: at most 6 rows, in
  descending order of date. The matching rows are the joined invoice rows of which the
  customer name, the email, or the text of the amount, the date or the status matches the
  \<open>ILIKE\<close> pattern \<open>%query%\<close>; for a query without \<open>%\<close>, \<open>_\<close> and backslash these
  are the rows that case-insensitively contain the query.
\<close>

theorem fetchFilteredInvoices_page_of_matches:
  "connected d \<Longrightarrow> 1 \<le> page \<Longrightarrow>
     fetchFilteredInvoices query page d =
       Returned (map select_invoices_table
                  (take 6 (drop (nat ((page - 1) * 6)) (select_ordered query d)))) \<and>
     mset (select_ordered query d) =
       mset (filter (matches_query query) (invoices_join_customers d)) \<and>
     sorted_wrt (\<lambda>x y. invoice_date (fst y) \<le> invoice_date (fst x)) (select_ordered query d) \<and>
     (\<exists>rows. fetchFilteredInvoices query page d = Returned rows \<and>
             length rows \<le> 6 \<and> dates_descending rows) \<and>
     (wildcard_free query \<longrightarrow>
        mset (select_ordered query d) =
          mset (filter (spec_matches query) (invoices_join_customers d)))"
proof -
  assume c: "connected d" and p: "1 \<le> page"
  let ?rows = "map select_invoices_table
                 (take 6 (drop (nat ((page - 1) * 6)) (select_ordered query d)))"
  have 1: "fetchFilteredInvoices query page d = Returned ?rows"
    using c p by (rule fetchFilteredInvoices_page)
  have 2: "mset (select_ordered query d) =
             mset (filter (matches_query query) (invoices_join_customers d))"
    by (simp add: select_ordered_def mset_order_by_date_desc)
  have 3: "sorted_wrt (\<lambda>x y. invoice_date (fst y) \<le> invoice_date (fst x))
             (select_ordered query d)"
    unfolding select_ordered_def by (rule sorted_order_by_date_desc)
  have 4: "length ?rows \<le> 6" by simp
  have 5: "dates_descending ?rows"
    using 3 by (rule dates_descending_page)
  have 6: "mset (select_ordered query d) =
             mset (filter (spec_matches query) (invoices_join_customers d))"
    if "wildcard_free query"
  proof -
    have "filter (matches_query query) (invoices_join_customers d) =
          filter (spec_matches query) (invoices_join_customers d)"
      using that by (simp add: matches_query_spec cong: filter_cong)
    with 2 show ?thesis by simp
  qed
  from 1 4 5 have 7: "\<exists>rows. fetchFilteredInvoices query page d = Returned rows \<and>
             length rows \<le> 6 \<and> dates_descending rows" by blast
  from 1 2 3 6 7 show ?thesis by blast
qed

theorem fetchFilteredInvoices_page_of_matches_witness:
  "connected db7 \<and> (1::int) \<le> 2 \<and> wildcard_free ''BOB'' \<and>
   fetchFilteredInvoices ''BOB'' 2 db7 =
     Returned [\<lparr>table_id = ''c'', table_amount = 1500, table_date = ''2024-01-01'',
                table_status = ''paid'', table_name = ''Bob'', table_email = ''bob@x.io'',
                table_image_url = ''/b.png''\<rparr>] \<and>
   map (invoice_id \<circ> fst) (select_ordered ''BOB'' db7) =
     [''b'', ''f'', ''d'', ''g'', ''a'', ''e'', ''c''] \<and>
   mset (select_ordered ''BOB'' db7) =
     mset (filter (spec_matches ''BOB'') (invoices_join_customers db7))"
proof -
  have c: "connected db7" by simp
  have p: "(1::int) \<le> 2" by simp
  have w: "wildcard_free ''BOB''" by code_simp
  have s: "select_ordered ''BOB'' db7 =
     [(invoice_on ''b'' ''2024-01-07'', bob), (invoice_on ''f'' ''2024-01-06'', bob),
      (invoice_on ''d'' ''2024-01-05'', bob), (invoice_on ''g'' ''2024-01-04'', bob),
      (invoice_on ''a'' ''2024-01-03'', bob), (invoice_on ''e'' ''2024-01-02'', bob),
      (invoice_on ''c'' ''2024-01-01'', bob)]"
    by code_simp
  note t = fetchFilteredInvoices_page_of_matches [OF c p, of "''BOB''"]
  from t have "fetchFilteredInvoices ''BOB'' 2 db7 =
       Returned (map select_invoices_table
                  (take 6 (drop (nat ((2 - 1) * 6)) (select_ordered ''BOB'' db7))))"
    by (rule conjunct1)
  then have r: "fetchFilteredInvoices ''BOB'' 2 db7 =
     Returned [\<lparr>table_id = ''c'', table_amount = 1500, table_date = ''2024-01-01'',
                table_status = ''paid'', table_name = ''Bob'', table_email = ''bob@x.io'',
                table_image_url = ''/b.png''\<rparr>]"
    by (simp add: s select_invoices_table_def)
  have o: "map (invoice_id \<circ> fst) (select_ordered ''BOB'' db7) =
     [''b'', ''f'', ''d'', ''g'', ''a'', ''e'', ''c'']"
    by (simp add: s)
  from t w have m: "mset (select_ordered ''BOB'' db7) =
     mset (filter (spec_matches ''BOB'') (invoices_join_customers db7))"
    by blast
  from c p w r o m show ?thesis by (intro conjI)
qed

text \<open>
  C7 as stated fails in two ways. The query \<open>_\<close> returns the one invoice of the sample,
  none of whose five texts contains an underscore. And page 0 gives the offset \<open>-6\<close>, on
  which the statement fails and \<open>fetchFilteredInvoices\<close> throws instead of returning
  rows.
\<close>

theorem fetchFilteredInvoices_counterexample:
  "fetchFilteredInvoices ''_'' 1 db1 =
     Returned [\<lparr>table_id = ''i1'', table_amount = 1500, table_date = ''2024-01-05'',
                table_status = ''paid'', table_name = ''Bob'', table_email = ''bob@x.io'',
                table_image_url = ''/b.png''\<rparr>] \<and>
   \<not> spec_matches ''_'' (invoice1, bob) \<and>
   fetchFilteredInvoices ''Bob'' 0 db1 = Threw ''Failed to fetch invoices.''"
proof -
  have a: "fetchFilteredInvoices ''_'' 1 db1 =
     Returned [\<lparr>table_id = ''i1'', table_amount = 1500, table_date = ''2024-01-05'',
                table_status = ''paid'', table_name = ''Bob'', table_email = ''bob@x.io'',
                table_image_url = ''/b.png''\<rparr>]"
    by code_simp
  have b: "\<not> spec_matches ''_'' (invoice1, bob)" by code_simp
  have c: "fetchFilteredInvoices ''Bob'' 0 db1 = Threw ''Failed to fetch invoices.''"
    by (simp add: fetchFilteredInvoices_def ITEMS_PER_PAGE_def)
  from a b c show ?thesis by (intro conjI)
qed

section \<open>Creating and updating an invoice (\<open>createInvoice\<close>, \<open>updateInvoice\<close>)\<close>

lemma safeParse_Inr_iff:
  "safeParse reader f = Inr v \<longleftrightarrow>
     form_customerId f = Text (field_customerId v) \<and>
     coerce_number reader (form_amount f) = Num (field_amount v) \<and> 0 < field_amount v \<and>
     form_status f = Text (field_status v) \<and>
     (field_status v = ''pending'' \<or> field_status v = ''paid'')"
  by (cases v)
     (auto simp: safeParse_def check_customerId_def check_amount_def check_status_def Let_def
        split: sum.splits entry.splits jsnum.splits if_splits)

lemma safeParse_Inl_keys:
  "safeParse reader f = Inl errs \<Longrightarrow>
     errs \<noteq> [] \<and> fst ` set errs \<subseteq> {''customerId'', ''amount'', ''status''}"
  by (auto simp: safeParse_def field_error_def Let_def split: sum.splits)

lemma safeParse_amount_not_positive:
  "coerce_number reader (form_amount f) = Num a \<Longrightarrow> a \<le> 0 \<Longrightarrow>
     \<exists>errs. safeParse reader f = Inl errs \<and>
       (''amount'', [Literal ''Please enter an amount greater than $0.'']) \<in> set errs"
  by (auto simp: safeParse_def field_error_def check_amount_def Let_def split: sum.splits)

text \<open>
  C3. When schema validation fails, \<open>createInvoice\<close> and \<open>updateInvoice\<close> return the
  field-keyed error map (not empty, its keys among \<open>customerId\<close>, \<open>amount\<close> and
  \<open>status\<close>) with a message, and leave the world as it was: no statement is sent, the
  tables are unchanged, nothing is revalidated. Validation fails in particular whenever the
  coerced amount is a number that is not greater than 0, and the error map then holds the
  amount message.
\<close>

theorem invalid_form_no_database_call:
  "(safeParse (str_to_num rt) f = Inl errs \<longrightarrow>
      createInvoice rt f w =
        (Returned \<lparr>errors = Some errs,
                   message = Some ''Missing Fields. Failed to Create Invoice.''\<rparr>, w) \<and>
      updateInvoice rt id' f w =
        (Returned \<lparr>errors = Some errs,
                   message = Some ''Missing Fields. Failed to Update Invoice.''\<rparr>, w) \<and>
      errs \<noteq> [] \<and> fst ` set errs \<subseteq> {''customerId'', ''amount'', ''status''}) \<and>
   (coerce_number (str_to_num rt) (form_amount f) = Num a \<and> a \<le> 0 \<longrightarrow>
      (\<exists>es. safeParse (str_to_num rt) f = Inl es \<and>
         (''amount'', [Literal ''Please enter an amount greater than $0.'']) \<in> set es))"
proof -
  have 1: "createInvoice rt f w =
        (Returned \<lparr>errors = Some errs,
                   message = Some ''Missing Fields. Failed to Create Invoice.''\<rparr>, w)"
    if "safeParse (str_to_num rt) f = Inl errs"
    using that by (simp add: createInvoice_def)
  have 2: "updateInvoice rt id' f w =
        (Returned \<lparr>errors = Some errs,
                   message = Some ''Missing Fields. Failed to Update Invoice.''\<rparr>, w)"
    if "safeParse (str_to_num rt) f = Inl errs"
    using that by (simp add: updateInvoice_def)
  show ?thesis
    using 1 2 safeParse_Inl_keys [of "str_to_num rt" f errs]
      safeParse_amount_not_positive [of "str_to_num rt" f a]
    by blast
qed

theorem invalid_form_no_database_call_witness:
  "coerce_number (str_to_num rt1) (form_amount (form_of ''0'')) = Num 0 \<and> (0::rat) \<le> 0 \<and>
   safeParse (str_to_num rt1) (form_of ''0'') =
     Inl [(''amount'', [Literal ''Please enter an amount greater than $0.''])] \<and>
   createInvoice rt1 (form_of ''0'') world1 =
     (Returned \<lparr>errors = Some [(''amount'', [Literal ''Please enter an amount greater than $0.''])],
                message = Some ''Missing Fields. Failed to Create Invoice.''\<rparr>, world1) \<and>
   updateInvoice rt1 ''i1'' (form_of ''0'') world1 =
     (Returned \<lparr>errors = Some [(''amount'', [Literal ''Please enter an amount greater than $0.''])],
                message = Some ''Missing Fields. Failed to Update Invoice.''\<rparr>, world1)"
proof -
  have n: "coerce_number (str_to_num rt1) (form_amount (form_of ''0'')) = Num 0"
    by (simp add: coerce_number_def)
  have z: "(0::rat) \<le> 0" by simp
  have s: "safeParse (str_to_num rt1) (form_of ''0'') =
     Inl [(''amount'', [Literal ''Please enter an amount greater than $0.''])]"
    by (simp add: safeParse_def coerce_number_def check_customerId_def check_amount_def
        check_status_def field_error_def)
  note t = invalid_form_no_database_call [of rt1 "form_of ''0''"
      "[(''amount'', [Literal ''Please enter an amount greater than $0.''])]" world1 "''i1''" 0]
  from t s have cu: "createInvoice rt1 (form_of ''0'') world1 =
     (Returned \<lparr>errors = Some [(''amount'', [Literal ''Please enter an amount greater than $0.''])],
                message = Some ''Missing Fields. Failed to Create Invoice.''\<rparr>, world1) \<and>
   updateInvoice rt1 ''i1'' (form_of ''0'') world1 =
     (Returned \<lparr>errors = Some [(''amount'', [Literal ''Please enter an amount greater than $0.''])],
                message = Some ''Missing Fields. Failed to Update Invoice.''\<rparr>, world1)"
    by blast
  from n z s cu show ?thesis by (intro conjI) (simp_all only:)
qed

section \<open>Cents handed to the statements (\<open>amountInCents\<close>)\<close>

lemma round_half_even_nearest: "\<bar>of_int (round_half_even x) - x\<bar> \<le> 1 / 2"
proof -
  define f where "f = \<lfloor>x\<rfloor>"
  have "of_int f \<le> x" "x < of_int f + 1"
    unfolding f_def by linarith+
  then have "\<bar>of_int (if x - of_int f < 1 / 2 then f
                  else if 1 / 2 < x - of_int f then f + 1
                  else if even f then f else f + 1) - x\<bar> \<le> 1 / 2"
    by (auto simp: abs_if)
  then show ?thesis
    unfolding round_half_even_def Let_def f_def .
qed

lemma two_to_positive: "0 < two_to k"
  by (simp add: two_to_def)

text \<open>
  Products that are doubles already are not changed, and a tie goes to the even
  significand.
\<close>

lemma amountInCents_examples:
  "amountInCents (1 / 16) = Some (25 / 4) \<and>
   amountInCents (25 / 2) = Some 1250 \<and>
   double_round (2 ^ 53 + 1) = Some (2 ^ 53) \<and>
   double_round (2 ^ 53 + 3) = Some (2 ^ 53 + 4)"
proof -
  have 1: "amountInCents (1 / 16) = Some (25 / 4)" by code_simp
  have 2: "amountInCents (25 / 2) = Some 1250" by code_simp
  have 3: "double_round (2 ^ 53 + 1) = Some (2 ^ 53)" by code_simp
  have 4: "double_round (2 ^ 53 + 3) = Some (2 ^ 53 + 4)" by code_simp
  from 1 2 3 4 show ?thesis by (intro conjI)
qed

text \<open>A statement that names a customer who does not exist is rejected.\<close>

lemma insert_invoice_unknown_customer:
  "\<not> customer_exists customerId d \<Longrightarrow>
     insert_invoice n customerId amount status day d = None"
  by (simp add: insert_invoice_def)

lemma update_invoice_unknown_customer:
  "\<not> customer_exists customerId d \<Longrightarrow> id' \<in> set (map invoice_id (invoices d)) \<Longrightarrow>
     update_invoice id' customerId amount status d = None"
  by (simp add: update_invoice_def)

lemma date_only_example: "date_only ''2024-05-06T07:08:09.123Z'' = ''2024-05-06''"
  by (simp add: date_only_def)

text \<open>
  An amount whose product is whole in doubles: \<open>0.1 * 100\<close> is \<open>10\<close>, and the row is
  stored with 10 cents and the date part of the timestamp.
\<close>

lemma createInvoice_tenth_example:
  "amountInCents (3602879701896397 / 36028797018963968) = Some 10 \<and>
   createInvoice rt_doubles (form_of ''0.1'') world1 =
     (Redirected ''/dashboard/invoices'',
      \<lparr>db = \<lparr>invoices = [invoice1,
                \<lparr>invoice_id = ''i2'', invoice_customer_id = ''c1'', invoice_amount = 10,
                 invoice_status = ''pending'', invoice_date = ''2024-05-06''\<rparr>],
              customers = [bob], users = [], connected = True\<rparr>,
       revalidated = [''/dashboard/invoices''], issued = [INSERT]\<rparr>)"
proof -
  have v: "safeParse (str_to_num rt_doubles) (form_of ''0.1'') =
     Inr \<lparr>field_customerId = ''c1'', field_amount = 3602879701896397 / 36028797018963968,
          field_status = ''pending''\<rparr>"
    by (simp add: safeParse_Inr_iff coerce_number_def)
  have a: "amountInCents (3602879701896397 / 36028797018963968) = Some 10"
    by code_simp
  have w: "whole 10 = Some 10" by code_simp
  have c: "createInvoice rt_doubles (form_of ''0.1'') world1 =
     (Redirected ''/dashboard/invoices'',
      \<lparr>db = \<lparr>invoices = [invoice1,
                \<lparr>invoice_id = ''i2'', invoice_customer_id = ''c1'', invoice_amount = 10,
                 invoice_status = ''pending'', invoice_date = ''2024-05-06''\<rparr>],
              customers = [bob], users = [], connected = True\<rparr>,
       revalidated = [''/dashboard/invoices''], issued = [INSERT]\<rparr>)"
    using v
    by (simp add: createInvoice_def insert_invoice_def customer_exists_def
        integer_parameter_def a w date_only_example)
  from a c show ?thesis by (intro conjI)
qed

text \<open>
  C1. For a form input that passes validation, \<open>createInvoice\<close> and \<open>updateInvoice\<close>
  are to store \<open>round(dollars*100)\<close> cents. The code fails to do so on the entry
  \<open>19.99\<close> for an existing customer: the entry passes validation, \<open>round(dollars*100)\<close>
  is 1999, but \<open>amount * 100\<close> is the double \<open>1998.9999999999998\<close>, which the code hands
  to the statement without rounding. The integer column rejects it, both actions return
  their database error message, and no row is stored or changed.
\<close>

theorem createInvoice_updateInvoice_unrounded_cents:
  "double_round (1999 / 100) = Some (5626684784446013 / 281474976710656) \<and>
   safeParse (str_to_num rt_doubles) (form_of ''19.99'') =
     Inr \<lparr>field_customerId = ''c1'', field_amount = 5626684784446013 / 281474976710656,
          field_status = ''pending''\<rparr> \<and>
   spec_cents (5626684784446013 / 281474976710656) = 1999 \<and>
   amountInCents (5626684784446013 / 281474976710656) =
     Some (8791694975696895 / 4398046511104) \<and>
   whole (8791694975696895 / 4398046511104) = None \<and>
   createInvoice rt_doubles (form_of ''19.99'') world1 =
     (Returned \<lparr>errors = None, message = Some ''Database Error: Failed to Create Invoice.''\<rparr>,
      \<lparr>db = db1, revalidated = [], issued = [INSERT]\<rparr>) \<and>
   updateInvoice rt_doubles ''i1'' (form_of ''19.99'') world1 =
     (Returned \<lparr>errors = None, message = Some ''Database Error: Failed to Update Invoice.''\<rparr>,
      \<lparr>db = db1, revalidated = [], issued = [UPDATE]\<rparr>)"
proof -
  have n: "double_round (1999 / 100) = Some (5626684784446013 / 281474976710656)"
    by code_simp
  have v: "safeParse (str_to_num rt_doubles) (form_of ''19.99'') =
     Inr \<lparr>field_customerId = ''c1'', field_amount = 5626684784446013 / 281474976710656,
          field_status = ''pending''\<rparr>"
    by (simp add: safeParse_Inr_iff coerce_number_def)
  have s: "spec_cents (5626684784446013 / 281474976710656) = 1999"
    by code_simp
  have a: "amountInCents (5626684784446013 / 281474976710656) =
     Some (8791694975696895 / 4398046511104)"
    by code_simp
  have w: "whole (8791694975696895 / 4398046511104) = None"
    by code_simp
  have c: "createInvoice rt_doubles (form_of ''19.99'') world1 =
     (Returned \<lparr>errors = None, message = Some ''Database Error: Failed to Create Invoice.''\<rparr>,
      \<lparr>db = db1, revalidated = [], issued = [INSERT]\<rparr>)"
    using v
    by (simp add: createInvoice_def insert_invoice_def customer_exists_def
        integer_parameter_def a w)
  have u: "updateInvoice rt_doubles ''i1'' (form_of ''19.99'') world1 =
     (Returned \<lparr>errors = None, message = Some ''Database Error: Failed to Update Invoice.''\<rparr>,
      \<lparr>db = db1, revalidated = [], issued = [UPDATE]\<rparr>)"
    using v
    by (simp add: updateInvoice_def update_invoice_def customer_exists_def
        integer_parameter_def a w)
  from n v s a w c u show ?thesis by (intro conjI)
qed

end
